theory Spec2Isabelle
  imports Main
begin

section \<open>The match server (backend/server.js): data model\<close>

text \<open>
  The server keeps every match in one in-memory table \<open>gamesDb\<close>, a JavaScript
  \<open>Map\<close> from the match identifier to a mutable game object. The three POST handlers
  \<open>/createGame\<close>, \<open>/joinGame\<close> and \<open>/makeMove\<close> read the request body, look the game
  up, mutate it in place and answer with JSON. The model below passes the table
  explicitly: a handler takes the table and the request body and returns the new table
  together with the response it sends.

  Request bodies are taken at the types the client sends: identities and match
  identifiers are strings, the cell index is an integer-valued JSON number (of either
  sign and of any size).
\<close>

subsection \<open>Cells and the board array\<close>

text \<open>
  A board slot holds \<open>null\<close>, \<open>'X'\<close> or \<open>'O'\<close>; reading a slot that was never written
  gives \<open>undefined\<close>. The guards of the handlers test slots for JavaScript truthiness.
\<close>

datatype cell = Null | Undefined | Mark_X | Mark_O

fun truthy :: "cell \<Rightarrow> bool" where
  "truthy Null = False"
| "truthy Undefined = False"
| "truthy Mark_X = True"
| "truthy Mark_O = True"

text \<open>
  The board is a JavaScript array. \<open>elems\<close> are its elements \<open>0 .. length - 1\<close> (a hole
  reads as \<open>undefined\<close>); \<open>props\<close> are the own properties whose key is an integer that
  is not an array index (a negative one, or one from \<open>2^32 - 1\<close> on). Writing an array
  index at or beyond the length grows the array; writing any other integer key adds a
  property and leaves the length alone.
\<close>

record cell_array =
  elems :: "cell list"
  props :: "int \<rightharpoonup> cell"

definition is_array_index :: "int \<Rightarrow> bool" where
  "is_array_index i = (0 \<le> i \<and> i < 4294967295)"

definition array_get :: "cell_array \<Rightarrow> int \<Rightarrow> cell" where
  "array_get a i =
     (if is_array_index i
      then (if nat i < length (elems a) then elems a ! nat i else Undefined)
      else (case props a i of None \<Rightarrow> Undefined | Some v \<Rightarrow> v))"

definition array_set :: "cell_array \<Rightarrow> int \<Rightarrow> cell \<Rightarrow> cell_array" where
  "array_set a i v =
     (if is_array_index i
      then (if nat i < length (elems a)
            then a\<lparr>elems := (elems a)[nat i := v]\<rparr>
            else a\<lparr>elems := elems a @ replicate (nat i - length (elems a)) Undefined @ [v]\<rparr>)
      else a\<lparr>props := (props a)(i \<mapsto> v)\<rparr>)"

text \<open>\<open>Array(9).fill(null)\<close>\<close>

definition fresh_board :: cell_array where
  "fresh_board = \<lparr>elems = replicate 9 Null, props = Map.empty\<rparr>"

text \<open>\<open>board.includes(null)\<close>: only the elements below the length are searched, and a
  hole or an \<open>undefined\<close> is not \<open>null\<close>.\<close>

definition includes_null :: "cell_array \<Rightarrow> bool" where
  "includes_null a = (Null \<in> set (elems a))"

subsection \<open>The win detector\<close>

definition lines :: "(int \<times> int \<times> int) list" where
  "lines = [(0, 1, 2), (3, 4, 5), (6, 7, 8),
            (0, 3, 6), (1, 4, 7), (2, 5, 8),
            (0, 4, 8), (2, 4, 6)]"

text \<open>The \<open>for\<close> loop of \<open>checkWin\<close> over the remaining lines: the first line whose three
  slots hold the same truthy value decides, and its value is returned; \<open>null\<close> when the
  loop runs out.\<close>

fun checkWin_loop :: "cell_array \<Rightarrow> (int \<times> int \<times> int) list \<Rightarrow> cell" where
  "checkWin_loop board [] = Null"
| "checkWin_loop board ((a, b, c) # rest) =
     (if truthy (array_get board a) \<and> array_get board a = array_get board b
           \<and> array_get board a = array_get board c
      then array_get board a
      else checkWin_loop board rest)"

definition checkWin :: "cell_array \<Rightarrow> cell" where
  "checkWin board = checkWin_loop board lines"

text \<open>A line is complete for a value \<open>m\<close> when its three slots all hold \<open>m\<close>.\<close>

definition line_full :: "cell_array \<Rightarrow> cell \<Rightarrow> int \<times> int \<times> int \<Rightarrow> bool" where
  "line_full board m l =
     (case l of (a, b, c) \<Rightarrow>
        array_get board a = m \<and> array_get board b = m \<and> array_get board c = m)"

definition has_line :: "cell_array \<Rightarrow> cell \<Rightarrow> bool" where
  "has_line board m = list_ex (line_full board m) lines"

text \<open>A line is complete when it is complete for one of the two marks;
  \<open>first_complete\<close> is the first such line of the table, in the order rows, columns,
  diagonals.\<close>

definition complete :: "cell_array \<Rightarrow> int \<times> int \<times> int \<Rightarrow> bool" where
  "complete board l = (line_full board Mark_X l \<or> line_full board Mark_O l)"

definition first_complete :: "cell_array \<Rightarrow> (int \<times> int \<times> int) option" where
  "first_complete board = find (complete board) lines"

subsection \<open>Identities and match identifiers\<close>

text \<open>
  Identities are account addresses: strings of ASCII characters (\<open>0x\<close> and hexadecimal
  digits). The handlers compare them after \<open>toLowerCase()\<close>, which on a string of ASCII
  characters turns the letters \<open>A\<close> to \<open>Z\<close> into \<open>a\<close> to \<open>z\<close> and keeps every other
  character. The case folding that JavaScript applies to letters outside ASCII is not
  modelled: \<open>toLowerCase\<close> below is the function on ASCII strings only.
\<close>

definition toLower_char :: "char \<Rightarrow> char" where
  "toLower_char c =
     (let n = (of_char c :: nat) in if 65 \<le> n \<and> n \<le> 90 then char_of (n + 32) else c)"

definition toLowerCase :: "string \<Rightarrow> string" where
  "toLowerCase s = map toLower_char s"

text \<open>\<open>Number.prototype.toString()\<close> on a non-negative integer: its decimal digits.\<close>

fun toString :: "nat \<Rightarrow> string" where
  "toString n =
     (if n < 10 then [''0123456789'' ! n]
      else toString (n div 10) @ [''0123456789'' ! (n mod 10)])"

declare toString.simps [simp del]

subsection \<open>The game object and the table\<close>

datatype status = WAITING | PLAYING | COMPLETED

text \<open>
  The fields of a game object, as the comment above \<open>gamesDb\<close> lists them. \<open>playerB\<close>,
  \<open>winner\<close> and \<open>signature\<close> start as \<open>null\<close> (\<open>None\<close>); \<open>turn\<close> is assigned from
  \<open>playerB\<close> when the turn switches, so it has the same type.
\<close>

record game =
  matchId :: string
  playerA :: string
  playerB :: "string option"
  board :: cell_array
  turn :: "string option"
  winner :: "string option"
  status :: status
  signature :: "string option"

type_synonym gamesDb = "string \<rightharpoonup> game"

text \<open>\<open>if (game.playerB)\<close>: \<open>null\<close> and the empty string are falsy, every other string is
  truthy.\<close>

fun truthy_str :: "string option \<Rightarrow> bool" where
  "truthy_str None = False"
| "truthy_str (Some s) = (s \<noteq> [])"

subsection \<open>Responses\<close>

text \<open>
  A handler ends with a call of \<open>res.status(code).json({ error: message })\<close> or of
  \<open>res.json\<close> on a success body: \<open>{ success: true, matchId }\<close> for a creation,
  \<open>{ success: true }\<close> for a join and \<open>{ success: true, game }\<close> for a move. A
  \<open>response\<close> is the body the handler passes to that call; \<open>res_json\<close> below says
  when the body reaches the client.
\<close>

datatype response =
    Error_json nat string
  | Created string
  | Joined
  | Moved game

text \<open>The error responses of the handlers, under the names the specification gives to
  the failure kinds.\<close>

abbreviation NotFound :: response where
  "NotFound \<equiv> Error_json 404 ''Game not found''"

abbreviation AlreadyFull :: response where
  "AlreadyFull \<equiv> Error_json 400 ''Game full''"

abbreviation SelfPlay :: response where
  "SelfPlay \<equiv> Error_json 400 ''Cannot play against yourself''"

abbreviation GameNotActive :: response where
  "GameNotActive \<equiv> Error_json 400 ''Game not active''"

abbreviation NotYourTurn :: response where
  "NotYourTurn \<equiv> Error_json 400 ''Not your turn''"

abbreviation CellTaken :: response where
  "CellTaken \<equiv> Error_json 400 ''Cell taken''"

fun is_error :: "response \<Rightarrow> bool" where
  "is_error (Error_json code msg) = True"
| "is_error (Created m) = False"
| "is_error Joined = False"
| "is_error (Moved g) = False"

section \<open>The handlers\<close>

subsection \<open>/createGame\<close>

text \<open>
  \<open>Math.floor(100000 + Math.random() * 900000)\<close> is \<open>100000 + rnd\<close>, where \<open>rnd\<close> is the
  integer part of \<open>Math.random() * 900000\<close>, a number from \<open>0\<close> to \<open>899999\<close> that the
  handler is given here as an argument. \<open>gamesDb.set\<close> stores the new game under the
  identifier whether or not the table already has an entry there.
\<close>

definition createGame :: "nat \<Rightarrow> gamesDb \<Rightarrow> string \<Rightarrow> gamesDb \<times> response" where
  "createGame rnd db pA =
     (let mid = toString (100000 + rnd)
      in (db(mid \<mapsto>
              \<lparr>matchId = mid,
               playerA = toLowerCase pA,
               playerB = None,
               board = fresh_board,
               turn = Some (toLowerCase pA),
               winner = None,
               status = WAITING,
               signature = None\<rparr>),
          Created mid))"

subsection \<open>/joinGame\<close>

definition joinGame :: "gamesDb \<Rightarrow> string \<times> string \<Rightarrow> gamesDb \<times> response" where
  "joinGame db req =
     (case req of (mid, pB) \<Rightarrow>
        (case db mid of
           None \<Rightarrow> (db, NotFound)
         | Some g \<Rightarrow>
             if truthy_str (playerB g) then (db, AlreadyFull)
             else if playerA g = toLowerCase pB then (db, SelfPlay)
             else (db(mid \<mapsto> g\<lparr>playerB := Some (toLowerCase pB), status := PLAYING\<rparr>),
                   Joined)))"

subsection \<open>/makeMove\<close>

text \<open>
  The signing step (\<open>ethers.solidityPackedKeccak256\<close> followed by
  \<open>SIGNER_WALLET.signMessage\<close>) belongs to a library; it is an argument \<open>sign\<close> of the
  handler, applied to the chain identifier, the match identifier of the request and the
  winner, and returning the signature, or \<open>None\<close> when anything inside the \<open>try\<close> block
  throws. The \<open>catch\<close> block only logs, so a failed signing leaves \<open>game.signature\<close> as it
  was and the handler goes on to the same success response. The handler awaits the
  signature; it is modelled as one step, with no other request served in between.

  \<open>move_symbol\<close> is the mark of the mover, \<open>move_board\<close> the board after
  \<open>game.board[index] = symbol\<close>, and \<open>apply_move\<close> the part of the handler after its four
  guards.
\<close>

type_synonym signer = "nat \<Rightarrow> string \<Rightarrow> string option \<Rightarrow> string option"

definition move_symbol :: "game \<Rightarrow> string \<Rightarrow> cell" where
  "move_symbol g player = (if toLowerCase player = playerA g then Mark_X else Mark_O)"

definition move_board :: "game \<Rightarrow> string \<Rightarrow> int \<Rightarrow> cell_array" where
  "move_board g player index = array_set (board g) index (move_symbol g player)"

definition apply_move :: "signer \<Rightarrow> game \<Rightarrow> string \<Rightarrow> string \<Rightarrow> int \<Rightarrow> game" where
  "apply_move sign g mid player index =
     (let g1 = g\<lparr>board := move_board g player index\<rparr>;
          winnerSymbol = checkWin (board g1)
      in if truthy winnerSymbol then
           (let g2 = g1\<lparr>status := COMPLETED,
                       winner := (if winnerSymbol = Mark_X then Some (playerA g1)
                                  else playerB g1)\<rparr>
            in (case sign 137 mid (winner g2) of
                  Some s \<Rightarrow> g2\<lparr>signature := Some s\<rparr>
                | None \<Rightarrow> g2))
         else if \<not> includes_null (board g1) then g1\<lparr>board := fresh_board\<rparr>
         else g1\<lparr>turn := (if turn g1 = Some (playerA g1) then playerB g1
                           else Some (playerA g1))\<rparr>)"

definition makeMove :: "signer \<Rightarrow> gamesDb \<Rightarrow> string \<times> string \<times> int \<Rightarrow> gamesDb \<times> response" where
  "makeMove sign db req =
     (case req of (mid, player, index) \<Rightarrow>
        (case db mid of
           None \<Rightarrow> (db, NotFound)
         | Some g \<Rightarrow>
             if status g \<noteq> PLAYING then (db, GameNotActive)
             else if turn g \<noteq> Some (toLowerCase player) then (db, NotYourTurn)
             else if truthy (array_get (board g) index) then (db, CellTaken)
             else (let g' = apply_move sign g mid player index
                   in (db(mid \<mapsto> g'), Moved g'))))"

subsection \<open>Sending the response\<close>

text \<open>
  \<open>res.json\<close> serialises the body with \<open>JSON.stringify\<close> and sends the string. The
  error bodies and the bodies of a creation and of a join are short. The body of a move
  holds the game with its board, one entry for each index below the length of the
  array, so a board grown by a write at a huge index gives a string longer than the
  engine allows and \<open>JSON.stringify\<close> throws. \<open>/makeMove\<close> is an \<open>async\<close> handler
  and nothing catches the exception: no response is sent and the process exits on the
  unhandled rejection, losing the table.

  Which games the engine can serialise is not decided by the code of the server; it is
  an argument \<open>ok\<close> of \<open>res_json\<close>. The result is the table the server goes on with
  and the response the client receives, or \<open>None\<close> when the process has exited without
  a response. \<open>makeMove_served\<close> is the move handler together with this last step.
\<close>

type_synonym stringify = "game \<Rightarrow> bool"

fun res_json :: "stringify \<Rightarrow> gamesDb \<times> response \<Rightarrow> (gamesDb \<times> response) option" where
  "res_json ok (db, Moved g) = (if ok g then Some (db, Moved g) else None)"
| "res_json ok (db, Error_json code msg) = Some (db, Error_json code msg)"
| "res_json ok (db, Created m) = Some (db, Created m)"
| "res_json ok (db, Joined) = Some (db, Joined)"

definition makeMove_served ::
  "stringify \<Rightarrow> signer \<Rightarrow> gamesDb \<Rightarrow> string \<times> string \<times> int
     \<Rightarrow> (gamesDb \<times> response) option" where
  "makeMove_served ok sign db req = res_json ok (makeMove sign db req)"

subsection \<open>Requests in sequence\<close>

text \<open>
  The server is single-threaded: it takes one request after the other, each handler
  running on the table the previous one left. \<open>handle\<close> dispatches a request to its
  route and \<open>run\<close> serves a list of requests, keeping the table; it is used on requests
  whose boards stay short, so that every response is sent.
\<close>

datatype request =
    CreateGame nat string
  | JoinGame string string
  | MakeMove string string int

fun handle :: "signer \<Rightarrow> gamesDb \<Rightarrow> request \<Rightarrow> gamesDb \<times> response" where
  "handle sign db (CreateGame rnd pA) = createGame rnd db pA"
| "handle sign db (JoinGame mid pB) = joinGame db (mid, pB)"
| "handle sign db (MakeMove mid player index) = makeMove sign db (mid, player, index)"

fun run :: "signer \<Rightarrow> gamesDb \<Rightarrow> request list \<Rightarrow> gamesDb" where
  "run sign db [] = db"
| "run sign db (r # rs) = run sign (fst (handle sign db r)) rs"

section \<open>Properties stated on a game or a table\<close>

text \<open>The game a move response carries, if it is one.\<close>

fun moved_game :: "response \<Rightarrow> game option" where
  "moved_game (Moved g) = Some g"
| "moved_game (Error_json code msg) = None"
| "moved_game (Created m) = None"
| "moved_game Joined = None"

text \<open>\<open>game.board[i]\<close> and \<open>game.board.length\<close>.\<close>

definition cell_at :: "int \<Rightarrow> game \<Rightarrow> cell" where
  "cell_at i g = array_get (board g) i"

definition board_length :: "game \<Rightarrow> nat" where
  "board_length g = length (elems (board g))"

text \<open>Every board of the table has exactly nine elements.\<close>

definition nine_cells :: "gamesDb \<Rightarrow> bool" where
  "nine_cells db = (\<forall>k g. db k = Some g \<longrightarrow> board_length g = 9)"

text \<open>The move just written leaves no line and no \<open>null\<close>: the draw branch of
  \<open>/makeMove\<close>.\<close>

definition is_draw :: "game \<Rightarrow> string \<Rightarrow> int \<Rightarrow> bool" where
  "is_draw g player index =
     (\<not> truthy (checkWin (move_board g player index))
      \<and> \<not> includes_null (move_board g player index))"

section \<open>Concrete tables and boards\<close>

text \<open>A signer whose signing step always throws, and one that always succeeds.\<close>

definition no_signer :: signer where
  "no_signer chain mid w = None"

definition fixed_signer :: signer where
  "fixed_signer chain mid w = Some ''0xsig''"

definition no_games :: gamesDb where
  "no_games = Map.empty"

text \<open>An engine that serialises every game whose board has at most a thousand
  elements.\<close>

definition short_boards :: stringify where
  "short_boards g = (board_length g \<le> 1000)"

text \<open>A plain array with the given elements.\<close>

definition array_of :: "cell list \<Rightarrow> cell_array" where
  "array_of cs = \<lparr>elems = cs, props = Map.empty\<rparr>"

text \<open>A board with a complete line of each mark.\<close>

definition two_lines :: cell_array where
  "two_lines = array_of [Mark_X, Mark_X, Mark_X, Mark_O, Mark_O, Mark_O, Null, Null, Null]"

text \<open>A board on which only \<open>X\<close> has a line.\<close>

definition top_row :: cell_array where
  "top_row = array_of [Mark_X, Mark_X, Mark_X, Mark_O, Mark_O, Null, Null, Null, Null]"

text \<open>Match \<open>100000\<close> between \<open>a\<close> and \<open>b\<close>, joined and with no move made.\<close>

definition started_game :: game where
  "started_game =
     \<lparr>matchId = ''100000'', playerA = ''a'', playerB = Some ''b'', board = fresh_board,
      turn = Some ''a'', winner = None, status = PLAYING, signature = None\<rparr>"

text \<open>Player \<open>a\<close> creates match \<open>100000\<close> and player \<open>b\<close> joins it.\<close>

definition started_db :: gamesDb where
  "started_db = run no_signer no_games [CreateGame 0 ''a'', JoinGame ''100000'' ''b'']"

text \<open>The match after \<open>a:0, b:4, a:1, b:3\<close>: \<open>a\<close> wins by playing cell 2.\<close>

definition row_db :: gamesDb where
  "row_db = run no_signer started_db
     [MakeMove ''100000'' ''a'' 0, MakeMove ''100000'' ''b'' 4,
      MakeMove ''100000'' ''a'' 1, MakeMove ''100000'' ''b'' 3]"

text \<open>The match after eight moves that leave cell 8 empty and no line possible: \<open>a\<close>
  completes a draw by playing cell 8.\<close>

definition draw_db :: gamesDb where
  "draw_db = run no_signer started_db
     [MakeMove ''100000'' ''a'' 0, MakeMove ''100000'' ''b'' 1,
      MakeMove ''100000'' ''a'' 2, MakeMove ''100000'' ''b'' 4,
      MakeMove ''100000'' ''a'' 3, MakeMove ''100000'' ''b'' 5,
      MakeMove ''100000'' ''a'' 7, MakeMove ''100000'' ''b'' 6]"

text \<open>Player \<open>a\<close> creates match \<open>100000\<close> and a request with the empty string as
  \<open>playerB\<close> joins it.\<close>

definition empty_join_db :: gamesDb where
  "empty_join_db = run no_signer no_games [CreateGame 0 ''a'', JoinGame ''100000'' []]"

section \<open>Evaluation of the concrete tables\<close>

lemma toLowerCase_a: "toLowerCase ''a'' = ''a''"
  by code_simp

lemma toLowerCase_b: "toLowerCase ''b'' = ''b''"
  by code_simp

lemma toLowerCase_c: "toLowerCase ''c'' = ''c''"
  by code_simp

lemma toLowerCase_empty: "toLowerCase [] = []"
  by (simp add: toLowerCase_def)

lemma toString_100000: "toString 100000 = ''100000''"
  by (simp add: toString.simps)

lemma toString_100001: "toString 100001 = ''100001''"
  by (simp add: toString.simps)

lemma replicate_9: "replicate 9 x = [x, x, x, x, x, x, x, x, x]"
  by (simp add: numeral_eq_Suc)

lemmas eval_defs =
  makeMove_def apply_move_def move_board_def move_symbol_def createGame_def joinGame_def
  array_get_def array_set_def is_array_index_def fresh_board_def checkWin_def lines_def
  includes_null_def array_of_def Let_def replicate_9 no_signer_def
  toLowerCase_a toLowerCase_b toLowerCase_c toLowerCase_empty toString_100000 toString_100001

lemma started_db_eq: "started_db = [''100000'' \<mapsto> started_game]"
  by (simp add: started_db_def no_games_def started_game_def eval_defs)

lemma row_db_eq:
  "row_db = [''100000'' \<mapsto> started_game
     \<lparr>board := array_of [Mark_X, Mark_X, Null, Mark_O, Mark_O, Null, Null, Null, Null]\<rparr>]"
  by (simp add: row_db_def started_db_eq started_game_def eval_defs)

lemma draw_db_eq:
  "draw_db = [''100000'' \<mapsto> started_game
     \<lparr>board := array_of [Mark_X, Mark_O, Mark_X, Mark_X, Mark_O, Mark_O, Mark_O, Mark_X, Null]\<rparr>]"
  by (simp add: draw_db_def started_db_eq started_game_def eval_defs)

lemma empty_join_db_eq:
  "empty_join_db = [''100000'' \<mapsto> started_game\<lparr>playerB := Some []\<rparr>]"
  by (simp add: empty_join_db_def no_games_def started_game_def eval_defs)

section \<open>The board array\<close>

lemma truthy_iff: "truthy m \<longleftrightarrow> m = Mark_X \<or> m = Mark_O"
  by (cases m) simp_all

lemma array_get_array_set:
  "array_get (array_set a i v) j = (if j = i then v else array_get a j)"
proof (cases "is_array_index i")
  case False
  then show ?thesis
    by (auto simp: array_get_def array_set_def)
next
  case True
  then have i: "0 \<le> i" by (simp add: is_array_index_def)
  show ?thesis
  proof (cases "is_array_index j")
    case False
    with True show ?thesis
      by (auto simp: array_get_def array_set_def)
  next
    case j: True
    then have "0 \<le> j" by (simp add: is_array_index_def)
    with i have eq: "nat j = nat i \<longleftrightarrow> j = i" by auto
    show ?thesis
    proof (cases "nat i < length (elems a)")
      case True
      with \<open>is_array_index i\<close> j eq show ?thesis
        by (auto simp: array_get_def array_set_def nth_list_update)
    next
      case False
      with \<open>is_array_index i\<close> j eq show ?thesis
        by (auto simp: array_get_def array_set_def nth_append)
    qed
  qed
qed

lemma length_array_set_in_range:
  "0 \<le> i \<Longrightarrow> i < 9 \<Longrightarrow> length (elems a) = 9 \<Longrightarrow> length (elems (array_set a i v)) = 9"
  by (simp add: array_set_def is_array_index_def)

lemma array_get_plain_out_of_range:
  "i < 0 \<or> 9 \<le> i \<Longrightarrow> length (elems a) = 9 \<Longrightarrow> props a = Map.empty
     \<Longrightarrow> array_get a i = Undefined"
  by (auto simp: array_get_def is_array_index_def)

section \<open>The win detector\<close>

lemma checkWin_loop_Cons:
  "checkWin_loop b ((x, y, z) # ls) =
     (if truthy (array_get b x) \<and> line_full b (array_get b x) (x, y, z)
      then array_get b x else checkWin_loop b ls)"
  by (auto simp: line_full_def)

lemma checkWin_loop_sound:
  "truthy (checkWin_loop b ls) \<Longrightarrow> \<exists>l\<in>set ls. line_full b (checkWin_loop b ls) l"
proof (induction ls)
  case Nil
  then show ?case by simp
next
  case (Cons l ls)
  obtain x y z where l: "l = (x, y, z)" by (cases l) auto
  show ?case
  proof (cases "truthy (array_get b x) \<and> line_full b (array_get b x) (x, y, z)")
    case True
    then show ?thesis unfolding l checkWin_loop_Cons by simp
  next
    case False
    with Cons show ?thesis unfolding l checkWin_loop_Cons by simp
  qed
qed

lemma checkWin_loop_complete:
  "l \<in> set ls \<Longrightarrow> truthy m \<Longrightarrow> line_full b m l \<Longrightarrow> truthy (checkWin_loop b ls)"
proof (induction ls)
  case Nil
  then show ?case by simp
next
  case (Cons k ls)
  obtain x y z where k: "k = (x, y, z)" by (cases k) auto
  show ?case
  proof (cases "truthy (array_get b x) \<and> line_full b (array_get b x) (x, y, z)")
    case True
    then show ?thesis unfolding k checkWin_loop_Cons by simp
  next
    case False
    have "l \<noteq> k"
    proof
      assume "l = k"
      with Cons.prems(2,3) have "truthy m" "line_full b m (x, y, z)" by (simp_all add: k)
      moreover from this have "array_get b x = m" by (simp add: line_full_def)
      ultimately show False using False by simp
    qed
    with Cons False show ?thesis unfolding k checkWin_loop_Cons by simp
  qed
qed

lemma checkWin_loop_Null: "\<not> truthy (checkWin_loop b ls) \<Longrightarrow> checkWin_loop b ls = Null"
proof (induction ls)
  case Nil
  then show ?case by simp
next
  case (Cons l ls)
  obtain x y z where l: "l = (x, y, z)" by (cases l) auto
  show ?case
  proof (cases "truthy (array_get b x) \<and> line_full b (array_get b x) (x, y, z)")
    case True
    with Cons.prems show ?thesis unfolding l checkWin_loop_Cons by simp
  next
    case False
    with Cons show ?thesis unfolding l checkWin_loop_Cons by auto
  qed
qed

lemma checkWin_truthy_iff:
  "truthy (checkWin b) \<longleftrightarrow> has_line b Mark_X \<or> has_line b Mark_O"
proof
  assume t: "truthy (checkWin b)"
  then obtain l where "l \<in> set lines" "line_full b (checkWin b) l"
    unfolding checkWin_def using checkWin_loop_sound by blast
  moreover from t have "checkWin b = Mark_X \<or> checkWin b = Mark_O"
    by (simp add: truthy_iff)
  ultimately show "has_line b Mark_X \<or> has_line b Mark_O"
    unfolding has_line_def list_ex_iff by metis
next
  assume "has_line b Mark_X \<or> has_line b Mark_O"
  then obtain l m where "l \<in> set lines" "truthy m" "line_full b m l"
    unfolding has_line_def list_ex_iff by (metis truthy.simps(3,4))
  then show "truthy (checkWin b)"
    unfolding checkWin_def by (rule checkWin_loop_complete)
qed

lemma checkWin_has_line: "truthy (checkWin b) \<Longrightarrow> has_line b (checkWin b)"
  unfolding checkWin_def has_line_def list_ex_iff by (rule checkWin_loop_sound)

lemma checkWin_Null: "\<not> truthy (checkWin b) \<Longrightarrow> checkWin b = Null"
  unfolding checkWin_def by (rule checkWin_loop_Null)

lemma complete_iff:
  "complete b (x, y, z) \<longleftrightarrow>
     truthy (array_get b x) \<and> line_full b (array_get b x) (x, y, z)"
  by (auto simp: complete_def line_full_def truthy_iff)

lemma checkWin_loop_find:
  "(find (complete b) ls = None \<longrightarrow> checkWin_loop b ls = Null)
   \<and> (\<forall>l. find (complete b) ls = Some l
          \<longrightarrow> truthy (checkWin_loop b ls) \<and> line_full b (checkWin_loop b ls) l)"
proof (induction ls)
  case Nil
  then show ?case by simp
next
  case (Cons k ls)
  obtain x y z where k: "k = (x, y, z)" by (cases k) auto
  show ?case
  proof (cases "complete b (x, y, z)")
    case True
    then have "truthy (array_get b x) \<and> line_full b (array_get b x) (x, y, z)"
      by (simp add: complete_iff)
    with True show ?thesis
      unfolding k checkWin_loop_Cons by simp
  next
    case False
    then have "\<not> (truthy (array_get b x) \<and> line_full b (array_get b x) (x, y, z))"
      by (simp add: complete_iff)
    with False Cons show ?thesis
      unfolding k checkWin_loop_Cons by auto
  qed
qed

lemmas line_eval =
  has_line_def lines_def line_full_def array_get_def is_array_index_def checkWin_def
  two_lines_def top_row_def array_of_def

text \<open>
  C4, as stated, fails on a board that holds a complete line of each mark: the rows
  \<open>0,1,2\<close> of \<open>X\<close> and \<open>3,4,5\<close> of \<open>O\<close>. The loop returns at the first complete line, so
  the detector answers \<open>X\<close> although a row is all \<open>O\<close>.
\<close>

theorem checkWin_two_lines_counterexample:
  "\<not> (checkWin two_lines = Mark_O \<longleftrightarrow> has_line two_lines Mark_O)"
  by (simp add: line_eval)

text \<open>
  C4 (amended). For every board, the Win Detector returns a mark if and only if some
  row, column or diagonal holds one mark in all three cells, and otherwise it returns
  \<open>null\<close>. The mark it returns is the mark that fills the first complete line, in the
  order rows, columns, diagonals. So for a mark \<open>m\<close> and a board on which the two marks
  do not both have a complete line, it returns \<open>m\<close> if and only if some line is all
  \<open>m\<close>; on a board with complete lines of both marks it returns only the mark of the
  first of them. (It returns one value, so never both marks.)
\<close>

theorem checkWin_correct:
  "(truthy (checkWin b) \<longleftrightarrow> has_line b Mark_X \<or> has_line b Mark_O)
   \<and> (truthy (checkWin b) \<longrightarrow> has_line b (checkWin b))
   \<and> (\<not> truthy (checkWin b) \<longrightarrow> checkWin b = Null)
   \<and> (truthy m \<and> \<not> (has_line b Mark_X \<and> has_line b Mark_O)
        \<longrightarrow> (checkWin b = m \<longleftrightarrow> has_line b m))
   \<and> (first_complete b = None \<longrightarrow> checkWin b = Null)
   \<and> (\<forall>l. first_complete b = Some l
          \<longrightarrow> truthy (checkWin b) \<and> line_full b (checkWin b) l)"
proof -
  have "checkWin b = m \<longleftrightarrow> has_line b m"
    if m: "truthy m" and one: "\<not> (has_line b Mark_X \<and> has_line b Mark_O)"
  proof
    assume "checkWin b = m"
    with m checkWin_has_line [of b] show "has_line b m" by simp
  next
    assume h: "has_line b m"
    from m have mm: "m = Mark_X \<or> m = Mark_O"
      by (simp add: truthy_iff)
    with h have "has_line b Mark_X \<or> has_line b Mark_O"
      by auto
    then have t: "truthy (checkWin b)"
      by (simp add: checkWin_truthy_iff)
    then have w: "has_line b (checkWin b)"
      by (rule checkWin_has_line)
    from t have c: "checkWin b = Mark_X \<or> checkWin b = Mark_O"
      by (simp add: truthy_iff)
    from mm c w h one show "checkWin b = m"
      by metis
  qed
  moreover have "checkWin b = Null" if "first_complete b = None"
    using that checkWin_loop_find [of b lines]
    by (simp add: checkWin_def first_complete_def)
  moreover have "truthy (checkWin b) \<and> line_full b (checkWin b) l"
    if "first_complete b = Some l" for l
    using that checkWin_loop_find [of b lines]
    by (simp add: checkWin_def first_complete_def)
  ultimately show ?thesis
    using checkWin_truthy_iff checkWin_has_line checkWin_Null by blast
qed

theorem checkWin_correct_witness:
  "truthy Mark_X \<and> \<not> (has_line top_row Mark_X \<and> has_line top_row Mark_O)
   \<and> truthy (checkWin top_row) \<and> has_line top_row (checkWin top_row)
   \<and> checkWin top_row = Mark_X
   \<and> first_complete two_lines = Some (0, 1, 2)
   \<and> line_full two_lines Mark_O (3, 4, 5)
   \<and> checkWin two_lines = Mark_X"
proof -
  have h: "truthy Mark_X \<and> \<not> (has_line top_row Mark_X \<and> has_line top_row Mark_O)"
    by (simp add: line_eval)
  have x: "has_line top_row Mark_X"
    by (simp add: line_eval)
  have f: "first_complete two_lines = Some (0, 1, 2)"
    by (simp add: first_complete_def complete_def lines_def line_full_def array_get_def
        is_array_index_def two_lines_def array_of_def)
  have o: "line_full two_lines Mark_O (3, 4, 5)"
    by (simp add: line_full_def array_get_def is_array_index_def two_lines_def array_of_def)
  from f checkWin_correct [of two_lines Mark_X]
  have "line_full two_lines (checkWin two_lines) (0, 1, 2)"
    by simp
  then have t: "checkWin two_lines = Mark_X"
    by (simp add: line_full_def array_get_def is_array_index_def two_lines_def array_of_def)
  from h x f o t checkWin_correct [of top_row Mark_X] show ?thesis
    by simp
qed

section \<open>The move handler\<close>

lemma makeMove_accepted:
  assumes "db mid = Some g" and "status g = PLAYING"
    and "turn g = Some (toLowerCase player)"
    and "\<not> truthy (array_get (board g) index)"
  shows "makeMove sign db (mid, player, index) =
           (db(mid \<mapsto> apply_move sign g mid player index),
            Moved (apply_move sign g mid player index))"
  using assms by (simp add: makeMove_def Let_def)

lemma makeMove_rejected:
  "db mid = None \<Longrightarrow> makeMove sign db (mid, player, index) = (db, NotFound)"
  "db mid = Some g \<Longrightarrow> status g \<noteq> PLAYING
     \<Longrightarrow> makeMove sign db (mid, player, index) = (db, GameNotActive)"
  "db mid = Some g \<Longrightarrow> status g = PLAYING \<Longrightarrow> turn g \<noteq> Some (toLowerCase player)
     \<Longrightarrow> makeMove sign db (mid, player, index) = (db, NotYourTurn)"
  "db mid = Some g \<Longrightarrow> status g = PLAYING \<Longrightarrow> turn g = Some (toLowerCase player)
     \<Longrightarrow> truthy (array_get (board g) index)
     \<Longrightarrow> makeMove sign db (mid, player, index) = (db, CellTaken)"
  by (simp_all add: makeMove_def)

lemma makeMove_MovedD:
  assumes "makeMove sign db (mid, player, index) = (db', Moved g')"
  shows "\<exists>g. db mid = Some g \<and> status g = PLAYING \<and> turn g = Some (toLowerCase player)
           \<and> \<not> truthy (array_get (board g) index)
           \<and> g' = apply_move sign g mid player index \<and> db' = db(mid \<mapsto> g')"
  using assms by (auto simp: makeMove_def Let_def split: option.splits if_splits)

lemma makeMove_error_or_accepted:
  "(is_error (snd (makeMove sign db (mid, player, index)))
      \<and> fst (makeMove sign db (mid, player, index)) = db)
   \<or> (\<exists>g. db mid = Some g \<and> status g = PLAYING \<and> turn g = Some (toLowerCase player)
         \<and> \<not> truthy (array_get (board g) index)
         \<and> makeMove sign db (mid, player, index) =
              (db(mid \<mapsto> apply_move sign g mid player index),
               Moved (apply_move sign g mid player index)))"
  by (auto simp: makeMove_def Let_def split: option.splits)

lemma apply_move_win:
  assumes "truthy (checkWin (move_board g player index))"
  shows "apply_move sign g mid player index =
     (let g2 = g\<lparr>board := move_board g player index, status := COMPLETED,
                 winner := (if checkWin (move_board g player index) = Mark_X
                            then Some (playerA g) else playerB g)\<rparr>
      in case sign 137 mid (winner g2) of Some s \<Rightarrow> g2\<lparr>signature := Some s\<rparr> | None \<Rightarrow> g2)"
  using assms by (simp add: apply_move_def Let_def split: option.splits)

lemma apply_move_draw:
  assumes "is_draw g player index"
  shows "apply_move sign g mid player index = g\<lparr>board := fresh_board\<rparr>"
  using assms by (simp add: apply_move_def is_draw_def Let_def)

lemma apply_move_continue:
  assumes "\<not> truthy (checkWin (move_board g player index))"
    and "includes_null (move_board g player index)"
  shows "apply_move sign g mid player index =
     g\<lparr>board := move_board g player index,
       turn := (if turn g = Some (playerA g) then playerB g else Some (playerA g))\<rparr>"
  using assms by (simp add: apply_move_def Let_def)

lemma apply_move_players:
  "matchId (apply_move sign g mid player index) = matchId g
   \<and> playerA (apply_move sign g mid player index) = playerA g
   \<and> playerB (apply_move sign g mid player index) = playerB g"
  by (simp add: apply_move_def Let_def split: option.splits)

lemma apply_move_board:
  "board (apply_move sign g mid player index) =
     (if is_draw g player index then fresh_board else move_board g player index)"
  by (simp add: apply_move_def is_draw_def Let_def split: option.splits)

text \<open>
  C1, as stated, fails: the handler has no range check and no response for an invalid
  index. In the started match, the request of \<open>a\<close> (whose turn it is) for cell 9 is
  answered by the success response.
\<close>

theorem makeMove_index_9_counterexample:
  "\<not> is_error (snd (makeMove no_signer started_db (''100000'', ''a'', 9)))"
  by (simp add: started_db_eq started_game_def eval_defs)

text \<open>
  C1 (amended). ApplyMove has no InvalidIndex failure. For every request whose
  cellIndex is outside \<open>[0,9)\<close>, the checks made are NotFound, GameNotActive,
  NotYourTurn and CellTaken (\<open>board[cellIndex]\<close> occupied), in this order, each answered
  with its own error and the table left as it was. A request that passes the four
  checks is not rejected: the handler passes the success response to \<open>res.json\<close>, so
  the client receives the success response or, when the Match cannot be serialised, no
  response at all, and never an error. On a plain nine-cell board the slot at such an
  index reads as \<open>undefined\<close>, so the fourth check passes whenever the first three do.
\<close>

theorem makeMove_out_of_range_not_rejected:
  assumes "index < 0 \<or> 9 \<le> index"
  shows "(db mid = None \<longrightarrow>
            makeMove_served ok sign db (mid, player, index) = Some (db, NotFound))
       \<and> (\<forall>g. db mid = Some g \<longrightarrow>
            (status g \<noteq> PLAYING \<longrightarrow>
               makeMove_served ok sign db (mid, player, index) = Some (db, GameNotActive))
          \<and> (status g = PLAYING \<and> turn g \<noteq> Some (toLowerCase player) \<longrightarrow>
               makeMove_served ok sign db (mid, player, index) = Some (db, NotYourTurn))
          \<and> (status g = PLAYING \<and> turn g = Some (toLowerCase player)
                \<and> truthy (array_get (board g) index) \<longrightarrow>
               makeMove_served ok sign db (mid, player, index) = Some (db, CellTaken))
          \<and> (status g = PLAYING \<and> turn g = Some (toLowerCase player)
                \<and> \<not> truthy (array_get (board g) index) \<longrightarrow>
               makeMove_served ok sign db (mid, player, index) =
                 (if ok (apply_move sign g mid player index)
                  then Some (db(mid \<mapsto> apply_move sign g mid player index),
                             Moved (apply_move sign g mid player index))
                  else None)
             \<and> (\<forall>db' r. makeMove_served ok sign db (mid, player, index) = Some (db', r)
                    \<longrightarrow> \<not> is_error r))
          \<and> (length (elems (board g)) = 9 \<and> props (board g) = Map.empty \<longrightarrow>
               array_get (board g) index = Undefined
             \<and> \<not> truthy (array_get (board g) index)))"
proof -
  have none: "makeMove_served ok sign db (mid, player, index) = Some (db, NotFound)"
    if "db mid = None"
    using that by (simp add: makeMove_served_def makeMove_rejected(1))
  have some: "(status g \<noteq> PLAYING \<longrightarrow>
               makeMove_served ok sign db (mid, player, index) = Some (db, GameNotActive))
          \<and> (status g = PLAYING \<and> turn g \<noteq> Some (toLowerCase player) \<longrightarrow>
               makeMove_served ok sign db (mid, player, index) = Some (db, NotYourTurn))
          \<and> (status g = PLAYING \<and> turn g = Some (toLowerCase player)
                \<and> truthy (array_get (board g) index) \<longrightarrow>
               makeMove_served ok sign db (mid, player, index) = Some (db, CellTaken))"
    if "db mid = Some g" for g
    using that by (simp add: makeMove_served_def makeMove_def)
  have acc: "makeMove_served ok sign db (mid, player, index) =
                 (if ok (apply_move sign g mid player index)
                  then Some (db(mid \<mapsto> apply_move sign g mid player index),
                             Moved (apply_move sign g mid player index))
                  else None)
             \<and> (\<forall>db' r. makeMove_served ok sign db (mid, player, index) = Some (db', r)
                    \<longrightarrow> \<not> is_error r)"
    if "db mid = Some g" "status g = PLAYING" "turn g = Some (toLowerCase player)"
      "\<not> truthy (array_get (board g) index)" for g
  proof -
    from that have "makeMove sign db (mid, player, index) =
           (db(mid \<mapsto> apply_move sign g mid player index),
            Moved (apply_move sign g mid player index))"
      by (rule makeMove_accepted)
    then show ?thesis
      by (auto simp: makeMove_served_def)
  qed
  have plain: "array_get (board g) index = Undefined \<and> \<not> truthy (array_get (board g) index)"
    if "length (elems (board g)) = 9" "props (board g) = Map.empty" for g
    using assms that by (simp add: array_get_plain_out_of_range)
  from none some acc plain show ?thesis
    by blast
qed

theorem makeMove_out_of_range_not_rejected_witness:
  "((-1::int) < 0 \<or> 9 \<le> (-1::int))
   \<and> started_db ''100000'' = Some started_game
   \<and> status started_game = PLAYING
   \<and> turn started_game = Some (toLowerCase ''a'')
   \<and> length (elems (board started_game)) = 9
   \<and> props (board started_game) = Map.empty
   \<and> short_boards (apply_move no_signer started_game ''100000'' ''a'' (-1))
   \<and> makeMove_served short_boards no_signer started_db (''100000'', ''a'', -1) =
       Some (started_db(''100000'' \<mapsto> apply_move no_signer started_game ''100000'' ''a'' (-1)),
             Moved (apply_move no_signer started_game ''100000'' ''a'' (-1)))
   \<and> \<not> short_boards (apply_move no_signer started_game ''100000'' ''a'' 4294967294)
   \<and> makeMove_served short_boards no_signer started_db (''100000'', ''a'', 4294967294) = None"
proof -
  have i: "(-1::int) < 0 \<or> 9 \<le> (-1::int)" and j: "(4294967294::int) < 0 \<or> 9 \<le> (4294967294::int)"
    by simp_all
  have h: "started_db ''100000'' = Some started_game"
    "status started_game = PLAYING"
    "turn started_game = Some (toLowerCase ''a'')"
    "length (elems (board started_game)) = 9"
    "props (board started_game) = Map.empty"
    by (simp_all add: started_db_eq started_game_def fresh_board_def toLowerCase_a)
  have s: "short_boards (apply_move no_signer started_game ''100000'' ''a'' (-1))"
    by (simp add: short_boards_def board_length_def apply_move_board move_board_def
        array_set_def is_array_index_def started_game_def fresh_board_def)
  have l: "\<not> short_boards (apply_move no_signer started_game ''100000'' ''a'' 4294967294)"
    by (simp add: short_boards_def board_length_def apply_move_board move_board_def
        is_draw_def includes_null_def array_set_def is_array_index_def started_game_def
        fresh_board_def)
  from makeMove_out_of_range_not_rejected
         [OF i, of started_db "''100000''" short_boards no_signer "''a''"]
       makeMove_out_of_range_not_rejected
         [OF j, of started_db "''100000''" short_boards no_signer "''a''"]
       h s l
  show ?thesis
    by simp
qed

text \<open>
  C7, as stated, fails for the InvalidIndex precondition: a request with an index
  outside \<open>[0,9)\<close> is not rejected, and the board it is applied to changes. In the
  started match the request of \<open>a\<close> for cell 12 succeeds and leaves a board of 13
  elements.
\<close>

theorem makeMove_index_12_counterexample:
  "\<not> is_error (snd (makeMove no_signer started_db (''100000'', ''a'', 12)))
   \<and> map_option board (fst (makeMove no_signer started_db (''100000'', ''a'', 12)) ''100000'')
       \<noteq> map_option board (started_db ''100000'')
   \<and> map_option board_length
         (fst (makeMove no_signer started_db (''100000'', ''a'', 12)) ''100000'') = Some 13"
  by (simp add: started_db_eq started_game_def board_length_def eval_defs)

text \<open>
  C7 (amended). Whenever one of the four preconditions the handler checks fails (no
  Match with the given matchId: NotFound; status not PLAYING: GameNotActive; turn not
  the mover: NotYourTurn; \<open>board[cellIndex]\<close> occupied: CellTaken, the first failing one
  in this order deciding the error), the call is rejected with that error and the whole
  table, so every field of the Match, is the same before and after the call. There is
  no InvalidIndex precondition: an index outside \<open>[0,9)\<close> is not a reason for rejection.
\<close>

theorem makeMove_rejected_unchanged:
  "(db mid = None \<longrightarrow> makeMove sign db (mid, player, index) = (db, NotFound))
   \<and> (\<forall>g. db mid = Some g \<longrightarrow>
        (status g \<noteq> PLAYING \<longrightarrow> makeMove sign db (mid, player, index) = (db, GameNotActive))
      \<and> (status g = PLAYING \<and> turn g \<noteq> Some (toLowerCase player)
           \<longrightarrow> makeMove sign db (mid, player, index) = (db, NotYourTurn))
      \<and> (status g = PLAYING \<and> turn g = Some (toLowerCase player)
           \<and> truthy (array_get (board g) index)
           \<longrightarrow> makeMove sign db (mid, player, index) = (db, CellTaken)))
   \<and> (is_error (snd (makeMove sign db (mid, player, index)))
        \<longrightarrow> fst (makeMove sign db (mid, player, index)) = db)"
  by (auto simp: makeMove_def Let_def split: option.splits)

theorem makeMove_rejected_unchanged_witness:
  "makeMove no_signer row_db (''100001'', ''a'', 2) = (row_db, NotFound)
   \<and> makeMove no_signer (fst (createGame 0 no_games ''a'')) (''100000'', ''a'', 2)
       = (fst (createGame 0 no_games ''a''), GameNotActive)
   \<and> makeMove no_signer row_db (''100000'', ''b'', 2) = (row_db, NotYourTurn)
   \<and> makeMove no_signer row_db (''100000'', ''a'', 4) = (row_db, CellTaken)"
proof -
  let ?w = "\<lparr>matchId = ''100000'', playerA = ''a'', playerB = None, board = fresh_board,
             turn = Some ''a'', winner = None, status = WAITING, signature = None\<rparr>"
  have c: "fst (createGame 0 no_games ''a'') = [''100000'' \<mapsto> ?w]"
    by (simp add: no_games_def eval_defs)
  have "row_db ''100001'' = None"
    by (simp add: row_db_eq)
  moreover have "fst (createGame 0 no_games ''a'') ''100000'' = Some ?w \<and> status ?w \<noteq> PLAYING"
    by (simp add: c)
  moreover have "row_db ''100000'' = Some (started_game
     \<lparr>board := array_of [Mark_X, Mark_X, Null, Mark_O, Mark_O, Null, Null, Null, Null]\<rparr>)"
    by (simp add: row_db_eq)
  ultimately show ?thesis
    using makeMove_rejected_unchanged [of row_db "''100001''" no_signer "''a''" 2]
      makeMove_rejected_unchanged [of "fst (createGame 0 no_games ''a'')" "''100000''"
        no_signer "''a''" 2]
      makeMove_rejected_unchanged [of row_db "''100000''" no_signer "''b''" 2]
      makeMove_rejected_unchanged [of row_db "''100000''" no_signer "''a''" 4]
    by (simp add: started_game_def array_of_def array_get_def is_array_index_def
        toLowerCase_a toLowerCase_b)
qed

text \<open>
  C2, as stated, fails in its last part. With a signer whose signing step throws, the
  winning move \<open>a:2\<close> of the match \<open>a:0, b:4, a:1, b:3\<close> completes the match with winner
  \<open>a\<close> and no signature, and the handler answers with the ordinary success response:
  the \<open>catch\<close> block only writes to the server's log.
\<close>

theorem makeMove_signing_failure_counterexample:
  "\<not> is_error (snd (makeMove no_signer row_db (''100000'', ''a'', 2)))
   \<and> map_option status (moved_game (snd (makeMove no_signer row_db (''100000'', ''a'', 2))))
       = Some COMPLETED
   \<and> map_option winner (moved_game (snd (makeMove no_signer row_db (''100000'', ''a'', 2))))
       = Some (Some ''a'')
   \<and> map_option signature (moved_game (snd (makeMove no_signer row_db (''100000'', ''a'', 2))))
       = Some None"
  by (simp add: row_db_eq started_game_def eval_defs)

text \<open>
  C2 (amended). For every ApplyMove that completes a winning line, if the signing step
  fails then the Match stored and returned has status COMPLETED, its winner is the
  owner of the winning mark (set whenever playerB is set), its signature is what it was
  before the call (absent if it was absent), and the call answers with the same success
  response as any accepted move, carrying the Match: no SettlementPending condition is
  reported, the failure is only logged.
\<close>

theorem makeMove_signing_failure:
  assumes "db mid = Some g" and "status g = PLAYING"
    and "turn g = Some (toLowerCase player)"
    and "\<not> truthy (array_get (board g) index)"
    and "truthy (checkWin (move_board g player index))"
    and "sign 137 mid (if checkWin (move_board g player index) = Mark_X
                       then Some (playerA g) else playerB g) = None"
  shows "\<exists>g'. makeMove sign db (mid, player, index) = (db(mid \<mapsto> g'), Moved g')
           \<and> \<not> is_error (snd (makeMove sign db (mid, player, index)))
           \<and> status g' = COMPLETED
           \<and> winner g' = (if checkWin (move_board g player index) = Mark_X
                           then Some (playerA g) else playerB g)
           \<and> (playerB g \<noteq> None \<longrightarrow> winner g' \<noteq> None)
           \<and> signature g' = signature g
           \<and> board g' = move_board g player index"
proof -
  let ?w = "if checkWin (move_board g player index) = Mark_X
            then Some (playerA g) else playerB g"
  let ?g' = "g\<lparr>board := move_board g player index, status := COMPLETED, winner := ?w\<rparr>"
  from assms(5,6) have "apply_move sign g mid player index = ?g'"
    by (simp add: apply_move_win Let_def)
  with assms(1-4) have "makeMove sign db (mid, player, index) = (db(mid \<mapsto> ?g'), Moved ?g')"
    by (simp add: makeMove_accepted)
  then show ?thesis
    by auto
qed

theorem makeMove_signing_failure_witness:
  "row_db ''100000'' = Some (started_game
      \<lparr>board := array_of [Mark_X, Mark_X, Null, Mark_O, Mark_O, Null, Null, Null, Null]\<rparr>)
   \<and> truthy (checkWin (array_of
        [Mark_X, Mark_X, Mark_X, Mark_O, Mark_O, Null, Null, Null, Null]))
   \<and> no_signer 137 ''100000'' (Some ''a'') = None
   \<and> (\<exists>g'. makeMove no_signer row_db (''100000'', ''a'', 2)
              = (row_db(''100000'' \<mapsto> g'), Moved g')
          \<and> status g' = COMPLETED \<and> winner g' = Some ''a'' \<and> signature g' = None)"
proof -
  let ?g = "started_game
      \<lparr>board := array_of [Mark_X, Mark_X, Null, Mark_O, Mark_O, Null, Null, Null, Null]\<rparr>"
  have b: "move_board ?g ''a'' 2 =
      array_of [Mark_X, Mark_X, Mark_X, Mark_O, Mark_O, Null, Null, Null, Null]"
    by (simp add: started_game_def eval_defs)
  have w: "checkWin (array_of
        [Mark_X, Mark_X, Mark_X, Mark_O, Mark_O, Null, Null, Null, Null]) = Mark_X"
    by (simp add: eval_defs)
  have h: "row_db ''100000'' = Some ?g" "status ?g = PLAYING"
    "turn ?g = Some (toLowerCase ''a'')" "\<not> truthy (array_get (board ?g) 2)"
    by (simp_all add: row_db_eq started_game_def toLowerCase_a array_of_def array_get_def
        is_array_index_def)
  have s: "no_signer 137 ''100000'' (Some ''a'') = None"
    by (simp add: no_signer_def)
  from b w h s
    makeMove_signing_failure [where db = row_db and mid = "''100000''" and g = ?g
      and player = "''a''" and index = 2 and sign = no_signer]
  show ?thesis
    by (auto simp: started_game_def no_signer_def)
qed

text \<open>
  C5. For every accepted ApplyMove the mark of the mover, \<open>X\<close> for playerA and \<open>O\<close>
  for any other mover (playerB, in a match whose two players differ), is stored in
  \<open>board[cellIndex]\<close>, every other slot staying as it was; unless the move completes a
  draw, this updated board is the board of the Match after the call. If the updated
  board contains a winning line, the status becomes COMPLETED and the winner is the
  owner of the winning mark: playerA for \<open>X\<close>, playerB for \<open>O\<close>.
\<close>

theorem makeMove_writes_mark:
  assumes "makeMove sign db (mid, player, index) = (db', Moved g')"
    and "db mid = Some g"
  shows "(toLowerCase player = playerA g \<longrightarrow> move_symbol g player = Mark_X)
       \<and> (toLowerCase player \<noteq> playerA g \<longrightarrow> move_symbol g player = Mark_O)
       \<and> array_get (move_board g player index) index = move_symbol g player
       \<and> (\<forall>j. j \<noteq> index \<longrightarrow>
             array_get (move_board g player index) j = array_get (board g) j)
       \<and> (\<not> is_draw g player index \<longrightarrow> board g' = move_board g player index)
       \<and> (has_line (move_board g player index) Mark_X
            \<or> has_line (move_board g player index) Mark_O \<longrightarrow>
             status g' = COMPLETED
           \<and> board g' = move_board g player index
           \<and> has_line (move_board g player index) (checkWin (move_board g player index))
           \<and> (checkWin (move_board g player index) = Mark_X
                \<longrightarrow> winner g' = Some (playerA g))
           \<and> (checkWin (move_board g player index) = Mark_O
                \<longrightarrow> winner g' = playerB g))
       \<and> db' mid = Some g'"
proof -
  from assms have g': "g' = apply_move sign g mid player index" and db': "db' mid = Some g'"
    by (auto dest: makeMove_MovedD)
  have win: "status g' = COMPLETED \<and> board g' = move_board g player index
      \<and> has_line (move_board g player index) (checkWin (move_board g player index))
      \<and> (checkWin (move_board g player index) = Mark_X \<longrightarrow> winner g' = Some (playerA g))
      \<and> (checkWin (move_board g player index) = Mark_O \<longrightarrow> winner g' = playerB g)"
    if "has_line (move_board g player index) Mark_X \<or> has_line (move_board g player index) Mark_O"
  proof -
    from that have t: "truthy (checkWin (move_board g player index))"
      by (simp add: checkWin_truthy_iff)
    then show ?thesis
      by (simp add: g' apply_move_win checkWin_has_line Let_def split: option.splits)
  qed
  have "board g' = move_board g player index" if "\<not> is_draw g player index"
    using that by (simp add: g' apply_move_board)
  with win db' show ?thesis
    by (simp add: move_symbol_def move_board_def array_get_array_set)
qed

theorem makeMove_writes_mark_witness:
  "snd (makeMove fixed_signer row_db (''100000'', ''a'', 2)) = Moved (started_game
      \<lparr>board := array_of [Mark_X, Mark_X, Mark_X, Mark_O, Mark_O, Null, Null, Null, Null],
       winner := Some ''a'', status := COMPLETED, signature := Some ''0xsig''\<rparr>)
   \<and> has_line (array_of [Mark_X, Mark_X, Mark_X, Mark_O, Mark_O, Null, Null, Null, Null])
        Mark_X
   \<and> fst (makeMove fixed_signer row_db (''100000'', ''a'', 2)) ''100000'' = Some (started_game
      \<lparr>board := array_of [Mark_X, Mark_X, Mark_X, Mark_O, Mark_O, Null, Null, Null, Null],
       winner := Some ''a'', status := COMPLETED, signature := Some ''0xsig''\<rparr>)"
proof -
  let ?g = "started_game
      \<lparr>board := array_of [Mark_X, Mark_X, Null, Mark_O, Mark_O, Null, Null, Null, Null]\<rparr>"
  let ?g' = "started_game
      \<lparr>board := array_of [Mark_X, Mark_X, Mark_X, Mark_O, Mark_O, Null, Null, Null, Null],
       winner := Some ''a'', status := COMPLETED, signature := Some ''0xsig''\<rparr>"
  have m: "makeMove fixed_signer row_db (''100000'', ''a'', 2)
             = (row_db(''100000'' \<mapsto> ?g'), Moved ?g')"
    by (simp add: row_db_eq started_game_def fixed_signer_def eval_defs)
  have g: "row_db ''100000'' = Some ?g"
    by (simp add: row_db_eq)
  have l: "has_line (array_of [Mark_X, Mark_X, Mark_X, Mark_O, Mark_O, Null, Null, Null, Null])
        Mark_X"
    by (simp add: line_eval)
  from makeMove_writes_mark [OF m g] m l show ?thesis
    by simp
qed

text \<open>
  C6. For every accepted ApplyMove whose updated board has no winning line: if the
  updated board has no empty cell left (the move filled the last one: a draw), the
  board of the Match is reset to nine empty cells, the status stays PLAYING and the
  turn is unchanged, so the mover plays first in the replay round; if an empty cell is
  left, the status stays PLAYING, the updated board is kept and the turn flips: from
  playerA to playerB, and from anyone else to playerA.
\<close>

theorem makeMove_draw_or_continue:
  assumes "makeMove sign db (mid, player, index) = (db', Moved g')"
    and "db mid = Some g"
    and "\<not> has_line (move_board g player index) Mark_X"
    and "\<not> has_line (move_board g player index) Mark_O"
  shows "(\<not> includes_null (move_board g player index) \<longrightarrow>
            board g' = fresh_board \<and> elems (board g') = replicate 9 Null
          \<and> status g' = PLAYING \<and> turn g' = turn g \<and> turn g' = Some (toLowerCase player))
       \<and> (includes_null (move_board g player index) \<longrightarrow>
            board g' = move_board g player index \<and> status g' = PLAYING
          \<and> (turn g = Some (playerA g) \<longrightarrow> turn g' = playerB g)
          \<and> (turn g \<noteq> Some (playerA g) \<longrightarrow> turn g' = Some (playerA g)))"
proof -
  from assms(1,2) have g': "g' = apply_move sign g mid player index"
    and s: "status g = PLAYING" and t: "turn g = Some (toLowerCase player)"
    by (auto dest: makeMove_MovedD)
  from assms(3,4) have n: "\<not> truthy (checkWin (move_board g player index))"
    by (simp add: checkWin_truthy_iff)
  show ?thesis
  proof (cases "includes_null (move_board g player index)")
    case True
    with n s show ?thesis
      by (simp add: g' apply_move_continue)
  next
    case False
    with n have "is_draw g player index"
      by (simp add: is_draw_def)
    with False s t show ?thesis
      by (simp add: g' apply_move_draw fresh_board_def)
  qed
qed

theorem makeMove_draw_or_continue_witness:
  "snd (makeMove no_signer draw_db (''100000'', ''a'', 8)) = Moved started_game
   \<and> \<not> includes_null (array_of
        [Mark_X, Mark_O, Mark_X, Mark_X, Mark_O, Mark_O, Mark_O, Mark_X, Mark_X])
   \<and> snd (makeMove no_signer started_db (''100000'', ''a'', 0)) = Moved (started_game
        \<lparr>board := array_of [Mark_X, Null, Null, Null, Null, Null, Null, Null, Null],
         turn := Some ''b''\<rparr>)"
proof -
  let ?d = "started_game
     \<lparr>board := array_of [Mark_X, Mark_O, Mark_X, Mark_X, Mark_O, Mark_O, Mark_O, Mark_X, Null]\<rparr>"
  let ?full = "array_of [Mark_X, Mark_O, Mark_X, Mark_X, Mark_O, Mark_O, Mark_O, Mark_X, Mark_X]"
  let ?one = "array_of [Mark_X, Null, Null, Null, Null, Null, Null, Null, Null]"
  have d: "draw_db ''100000'' = Some ?d" and s: "started_db ''100000'' = Some started_game"
    by (simp_all add: draw_db_eq started_db_eq)
  have md: "makeMove no_signer draw_db (''100000'', ''a'', 8)
      = (draw_db(''100000'' \<mapsto> started_game), Moved started_game)"
    by (simp add: draw_db_eq started_game_def eval_defs)
  have ms: "makeMove no_signer started_db (''100000'', ''a'', 0)
      = (started_db(''100000'' \<mapsto> started_game\<lparr>board := ?one, turn := Some ''b''\<rparr>),
         Moved (started_game\<lparr>board := ?one, turn := Some ''b''\<rparr>))"
    by (simp add: started_db_eq started_game_def eval_defs)
  have bd: "move_board ?d ''a'' 8 = ?full" and bs: "move_board started_game ''a'' 0 = ?one"
    by (simp_all add: started_game_def eval_defs)
  have l: "\<not> has_line ?full Mark_X" "\<not> has_line ?full Mark_O"
    "\<not> has_line ?one Mark_X" "\<not> has_line ?one Mark_O"
    by (simp_all add: line_eval)
  have i: "\<not> includes_null ?full" "includes_null ?one"
    by (simp_all add: includes_null_def array_of_def)
  from makeMove_draw_or_continue [OF md d] makeMove_draw_or_continue [OF ms s] bd bs l i md ms
  show ?thesis
    by simp
qed

text \<open>
  C10. Every accepted ApplyMove leaves the playerA, playerB and matchId fields of the
  Match unchanged, and a winning move leaves its turn unchanged as well: the completed
  Match still has the identity of the mover who won as its turn.
\<close>

theorem makeMove_keeps_players:
  assumes "makeMove sign db (mid, player, index) = (db', Moved g')"
    and "db mid = Some g"
  shows "playerA g' = playerA g \<and> playerB g' = playerB g \<and> matchId g' = matchId g
       \<and> (truthy (checkWin (move_board g player index)) \<longrightarrow>
            status g' = COMPLETED \<and> turn g' = turn g
          \<and> turn g' = Some (toLowerCase player))"
proof -
  from assms have g': "g' = apply_move sign g mid player index"
    and t: "turn g = Some (toLowerCase player)"
    by (auto dest: makeMove_MovedD)
  have "status g' = COMPLETED \<and> turn g' = turn g"
    if "truthy (checkWin (move_board g player index))"
    using that by (simp add: g' apply_move_win Let_def split: option.splits)
  with t show ?thesis
    by (simp add: g' apply_move_players)
qed

theorem makeMove_keeps_players_witness:
  "truthy (checkWin (array_of [Mark_X, Mark_X, Mark_X, Mark_O, Mark_O, Null, Null, Null, Null]))
   \<and> map_option turn (moved_game (snd (makeMove fixed_signer row_db (''100000'', ''a'', 2))))
       = Some (Some ''a'')
   \<and> map_option status (moved_game (snd (makeMove fixed_signer row_db (''100000'', ''a'', 2))))
       = Some COMPLETED
   \<and> map_option playerB (moved_game (snd (makeMove fixed_signer row_db (''100000'', ''a'', 2))))
       = Some (Some ''b'')"
proof -
  let ?g = "started_game
      \<lparr>board := array_of [Mark_X, Mark_X, Null, Mark_O, Mark_O, Null, Null, Null, Null]\<rparr>"
  obtain db' g' where m: "makeMove fixed_signer row_db (''100000'', ''a'', 2) = (db', Moved g')"
    by (simp add: row_db_eq started_game_def fixed_signer_def eval_defs)
  have g: "row_db ''100000'' = Some ?g"
    by (simp add: row_db_eq)
  have b: "move_board ?g ''a'' 2 =
      array_of [Mark_X, Mark_X, Mark_X, Mark_O, Mark_O, Null, Null, Null, Null]"
    by (simp add: started_game_def eval_defs)
  have w: "truthy (checkWin (array_of
        [Mark_X, Mark_X, Mark_X, Mark_O, Mark_O, Null, Null, Null, Null]))"
    by (simp add: eval_defs)
  from makeMove_keeps_players [OF m g] b w m show ?thesis
    by (simp add: started_game_def toLowerCase_a)
qed

section \<open>The board invariant\<close>

lemma nine_cells_upd:
  "nine_cells db \<Longrightarrow> board_length g = 9 \<Longrightarrow> nine_cells (db(k \<mapsto> g))"
  by (simp add: nine_cells_def)

lemma board_length_apply_move:
  assumes "0 \<le> index" and "index < 9" and "board_length g = 9"
  shows "board_length (apply_move sign g mid player index) = 9"
  using assms
  by (simp add: board_length_def apply_move_board move_board_def length_array_set_in_range
      fresh_board_def)

lemma apply_move_keeps_marks:
  assumes "\<not> truthy (array_get (board g) index)" and "\<not> is_draw g player index"
    and "truthy (array_get (board g) j)"
  shows "array_get (board (apply_move sign g mid player index)) j = array_get (board g) j"
proof -
  from assms(1,3) have "j \<noteq> index"
    by auto
  with assms(2) show ?thesis
    by (simp add: apply_move_board move_board_def array_get_array_set)
qed

text \<open>
  C3, as stated, fails twice. The move that completes a draw replaces the board by a
  new empty one, so cells that held a mark are empty afterwards: cell 0 holds \<open>X\<close> before
  the ninth move of the drawn round and \<open>null\<close> after it. And the index is not checked:
  in the started match the accepted request for cell 9 leaves a board of ten cells.
\<close>

theorem board_invariant_counterexample:
  "map_option (cell_at 0) (draw_db ''100000'') = Some Mark_X
   \<and> map_option (cell_at 0)
        (fst (makeMove no_signer draw_db (''100000'', ''a'', 8)) ''100000'') = Some Null
   \<and> map_option board_length
        (fst (makeMove no_signer started_db (''100000'', ''a'', 9)) ''100000'') = Some 10"
  by (simp add: draw_db_eq started_db_eq started_game_def cell_at_def board_length_def
      eval_defs)

text \<open>
  C3 (amended). If every board of the Registry has exactly 9 cells, then it is so after
  CreateMatch, after JoinMatch (which changes no board) and after every ApplyMove whose
  cellIndex is in \<open>[0,9)\<close>. Such an ApplyMove either completes a draw, and then the
  board is reset to 9 empty cells, or it leaves every non-empty cell of the board as it
  was.
\<close>

theorem board_nine_cells_preserved:
  assumes "nine_cells db"
  shows "nine_cells (fst (createGame rnd db pA))
       \<and> nine_cells (fst (joinGame db (jid, pB)))
       \<and> (\<forall>k g'. fst (joinGame db (jid, pB)) k = Some g'
             \<longrightarrow> (\<exists>g. db k = Some g \<and> board g' = board g))
       \<and> (0 \<le> index \<and> index < 9 \<longrightarrow>
            nine_cells (fst (makeMove sign db (mid, player, index)))
          \<and> (\<forall>g g'. db mid = Some g
                 \<and> fst (makeMove sign db (mid, player, index)) mid = Some g' \<longrightarrow>
               (is_draw g player index \<and> board g' = fresh_board)
             \<or> (\<forall>j. truthy (array_get (board g) j)
                    \<longrightarrow> array_get (board g') j = array_get (board g) j)))"
proof -
  have c: "nine_cells (fst (createGame rnd db pA))"
    using assms
    by (simp add: createGame_def Let_def nine_cells_upd board_length_def fresh_board_def)
  have j: "nine_cells (fst (joinGame db (jid, pB)))"
    using assms
    by (auto simp: joinGame_def nine_cells_def board_length_def split: option.splits)
  have jb: "\<exists>g. db k = Some g \<and> board g' = board g"
    if "fst (joinGame db (jid, pB)) k = Some g'" for k g'
    using that by (auto simp: joinGame_def split: option.splits if_splits)
  have m: "nine_cells (fst (makeMove sign db (mid, player, index)))"
    if r: "0 \<le> index" "index < 9"
  proof (cases "is_error (snd (makeMove sign db (mid, player, index)))")
    case True
    with makeMove_error_or_accepted [of sign db mid player index] assms show ?thesis
      by auto
  next
    case False
    with makeMove_error_or_accepted [of sign db mid player index]
    obtain g where g: "db mid = Some g"
      and mm: "makeMove sign db (mid, player, index) =
              (db(mid \<mapsto> apply_move sign g mid player index),
               Moved (apply_move sign g mid player index))"
      by auto
    from assms g have "board_length g = 9"
      by (simp add: nine_cells_def)
    with r have "board_length (apply_move sign g mid player index) = 9"
      by (simp add: board_length_apply_move)
    with assms show ?thesis
      by (simp add: mm nine_cells_upd)
  qed
  have k: "(is_draw g player index \<and> board g' = fresh_board)
             \<or> (\<forall>j. truthy (array_get (board g) j)
                    \<longrightarrow> array_get (board g') j = array_get (board g) j)"
    if g: "db mid = Some g" and g': "fst (makeMove sign db (mid, player, index)) mid = Some g'"
    for g g'
  proof (cases "is_error (snd (makeMove sign db (mid, player, index)))")
    case True
    with makeMove_error_or_accepted [of sign db mid player index] g g' show ?thesis
      by auto
  next
    case False
    with makeMove_error_or_accepted [of sign db mid player index] g
    have e: "\<not> truthy (array_get (board g) index)"
      and mm: "makeMove sign db (mid, player, index) =
              (db(mid \<mapsto> apply_move sign g mid player index),
               Moved (apply_move sign g mid player index))"
      by auto
    from mm g' have eq: "g' = apply_move sign g mid player index"
      by simp
    show ?thesis
    proof (cases "is_draw g player index")
      case True
      then show ?thesis
        by (simp add: eq apply_move_board)
    next
      case False
      with e show ?thesis
        by (simp add: eq apply_move_keeps_marks)
    qed
  qed
  from c j jb m k show ?thesis
    by blast
qed

theorem board_nine_cells_preserved_witness:
  "nine_cells row_db
   \<and> nine_cells (fst (createGame 1 row_db ''c''))
   \<and> nine_cells (fst (joinGame row_db (''100000'', ''c'')))
   \<and> nine_cells (fst (makeMove no_signer row_db (''100000'', ''a'', 2)))
   \<and> map_option (cell_at 4) (row_db ''100000'') = Some Mark_O
   \<and> map_option (cell_at 4)
        (fst (makeMove no_signer row_db (''100000'', ''a'', 2)) ''100000'') = Some Mark_O"
proof -
  have n: "nine_cells row_db"
    by (simp add: nine_cells_def row_db_eq board_length_def array_of_def)
  have v: "map_option (cell_at 4) (row_db ''100000'') = Some Mark_O"
    "map_option (cell_at 4)
        (fst (makeMove no_signer row_db (''100000'', ''a'', 2)) ''100000'') = Some Mark_O"
    by (simp_all add: row_db_eq started_game_def cell_at_def eval_defs)
  from board_nine_cells_preserved [OF n, of 1 "''c''" "''100000''" "''c''" 2 no_signer
      "''100000''" "''a''"] n v
  show ?thesis
    by simp
qed

section \<open>The join handler\<close>

lemma joinGame_cases:
  "(db mid = None \<longrightarrow> joinGame db (mid, pB) = (db, NotFound))
   \<and> (\<forall>g. db mid = Some g \<longrightarrow>
        (truthy_str (playerB g) \<longrightarrow> joinGame db (mid, pB) = (db, AlreadyFull))
      \<and> (\<not> truthy_str (playerB g) \<and> playerA g = toLowerCase pB
           \<longrightarrow> joinGame db (mid, pB) = (db, SelfPlay))
      \<and> (\<not> truthy_str (playerB g) \<and> playerA g \<noteq> toLowerCase pB
           \<longrightarrow> joinGame db (mid, pB) =
                 (db(mid \<mapsto> g\<lparr>playerB := Some (toLowerCase pB), status := PLAYING\<rparr>),
                  Joined)))"
  by (simp add: joinGame_def)

text \<open>
  C8 does not hold of the handler. The guard \<open>if (game.playerB)\<close> tests the field for
  truthiness, and the empty string is falsy. After a join whose \<open>playerB\<close> is the empty
  string, the Match is PLAYING with \<open>playerB\<close> set to that string; a second join, by
  \<open>b\<close>, is then not answered with AlreadyFull: it succeeds and replaces \<open>playerB\<close>.
\<close>

theorem joinGame_after_empty_join:
  "map_option playerB (empty_join_db ''100000'') = Some (Some [])
   \<and> map_option status (empty_join_db ''100000'') = Some PLAYING
   \<and> joinGame empty_join_db (''100000'', ''b'')
       = (empty_join_db(''100000'' \<mapsto> started_game), Joined)"
  by (simp add: empty_join_db_eq started_game_def eval_defs)

section \<open>The table\<close>

lemma dom_joinGame: "dom db \<subseteq> dom (fst (joinGame db req))"
  by (cases req) (auto simp: joinGame_def split: option.splits)

lemma dom_makeMove: "dom db \<subseteq> dom (fst (makeMove sign db req))"
  by (cases req) (auto simp: makeMove_def Let_def split: option.splits)

text \<open>
  C9, as stated, fails when the generated identifier collides. With the started match
  \<open>100000\<close> in the table, a creation by \<open>c\<close> that draws the same identifier replaces
  it: the entry is then a WAITING match of \<open>c\<close> with no second player.
\<close>

theorem createGame_collision_counterexample:
  "map_option status (started_db ''100000'') = Some PLAYING
   \<and> map_option playerA (started_db ''100000'') = Some ''a''
   \<and> map_option status (fst (createGame 0 started_db ''c'') ''100000'') = Some WAITING
   \<and> map_option playerA (fst (createGame 0 started_db ''c'') ''100000'') = Some ''c''
   \<and> map_option playerB (fst (createGame 0 started_db ''c'') ''100000'') = Some None"
  by (simp add: started_db_eq started_game_def eval_defs)

text \<open>
  C9 (amended). No core operation removes an identifier from the Registry. For every
  CreateMatch call, every Match stored under an identifier other than the freshly
  generated one maps afterwards to the same entity as before; the generated identifier
  maps to the new WAITING Match, which replaces the Match stored there before if the
  identifier collides with an existing one.
\<close>

theorem createGame_keeps_other_matches:
  "(\<forall>k. k \<noteq> toString (100000 + rnd) \<longrightarrow> fst (createGame rnd db pA) k = db k)
   \<and> fst (createGame rnd db pA) (toString (100000 + rnd)) =
       Some \<lparr>matchId = toString (100000 + rnd), playerA = toLowerCase pA, playerB = None,
             board = fresh_board, turn = Some (toLowerCase pA), winner = None,
             status = WAITING, signature = None\<rparr>
   \<and> snd (createGame rnd db pA) = Created (toString (100000 + rnd))
   \<and> dom db \<subseteq> dom (fst (createGame rnd db pA))
   \<and> dom db \<subseteq> dom (fst (joinGame db jreq))
   \<and> dom db \<subseteq> dom (fst (makeMove sign db mreq))"
proof -
  have "dom db \<subseteq> dom (fst (createGame rnd db pA))"
    by (auto simp: createGame_def Let_def)
  with dom_joinGame [of db jreq] dom_makeMove [of db sign mreq] show ?thesis
    by (simp add: createGame_def Let_def)
qed

theorem createGame_keeps_other_matches_witness:
  "''100000'' \<noteq> toString (100000 + 1)
   \<and> fst (createGame 1 started_db ''c'') ''100000'' = Some started_game
   \<and> map_option playerA (fst (createGame 1 started_db ''c'') ''100001'') = Some ''c''
   \<and> snd (createGame 1 started_db ''c'') = Created ''100001''"
proof -
  have h: "''100000'' \<noteq> toString (100000 + 1)"
    by (simp add: toString_100001)
  from h createGame_keeps_other_matches [of 1 started_db "''c''"] show ?thesis
    by (simp add: started_db_eq toString_100001 toLowerCase_c)
qed

end
